theory Spec2Isabelle
  imports Complex_Main
begin

section \<open>Strings and paths\<close>

text \<open>
  Python's \<^verbatim>\<open>s.split(sep)\<close> with a one-character separator: every occurrence
  of the separator ends a segment, so the result always has at least one segment
  (\<^verbatim>\<open>''.split('/') == ['']\<close>).
\<close>

fun split_char :: "char \<Rightarrow> string \<Rightarrow> string list" where
  "split_char c [] = [[]]"
| "split_char c (x # xs) =
     (if x = c then [] # split_char c xs
      else (case split_char c xs of
              [] \<Rightarrow> [[x]]
            | y # ys \<Rightarrow> (x # y) # ys))"

text \<open>Python's \<^verbatim>\<open>sep.join(xs)\<close>.\<close>

fun str_join :: "string \<Rightarrow> string list \<Rightarrow> string" where
  "str_join sep [] = []"
| "str_join sep [x] = x"
| "str_join sep (x # y # ys) = x @ sep @ str_join sep (y # ys)"

text \<open>
  \<^verbatim>\<open>posixpath.join(a, b)\<close>: an absolute second component replaces the
  first; otherwise the two are joined with exactly one separator between them.
\<close>

definition path_join :: "string \<Rightarrow> string \<Rightarrow> string" where
  "path_join a b =
     (if b \<noteq> [] \<and> hd b = CHR ''/'' then b
      else if a = [] \<or> last a = CHR ''/'' then a @ b
      else a @ ''/'' @ b)"

section \<open>Breadcrumb data of a folder page\<close>

text \<open>
  The loop of \<^verbatim>\<open>browse\<close> that fills \<^verbatim>\<open>appended_paths\<close>: one step
  per segment, appending the segment itself while the list is still empty and the
  last entry extended by the segment afterwards.
\<close>

definition append_path :: "string list \<Rightarrow> string \<Rightarrow> string list" where
  "append_path appended_paths paths =
     (if appended_paths = [] then appended_paths @ [paths]
      else appended_paths @ [last appended_paths @ ''/'' @ paths])"

definition appended_paths_of :: "string \<Rightarrow> string list" where
  "appended_paths_of path = foldl append_path [] (split_char CHR ''/'' path)"

section \<open>Request parameters\<close>

text \<open>
  \<^verbatim>\<open>request.values\<close> is a multi-dictionary of the query-string and form
  parameters; \<^verbatim>\<open>get\<close> returns the first value stored under a key, or the
  default (\<^verbatim>\<open>None\<close> unless given) when the key is absent.
\<close>

type_synonym params = "(string \<times> string) list"

definition get :: "params \<Rightarrow> string \<Rightarrow> string option" where
  "get req k = map_of req k"

definition get_default :: "params \<Rightarrow> string \<Rightarrow> string \<Rightarrow> string" where
  "get_default req k d = (case map_of req k of None \<Rightarrow> d | Some v \<Rightarrow> v)"

definition digit_val :: "char \<Rightarrow> nat option" where
  "digit_val c = map_of (zip ''0123456789'' [0, 1, 2, 3, 4, 5, 6, 7, 8, 9]) c"

fun nat_of_digits :: "nat \<Rightarrow> string \<Rightarrow> nat option" where
  "nat_of_digits acc [] = Some acc"
| "nat_of_digits acc (c # cs) =
     (case digit_val c of
        None \<Rightarrow> None
      | Some d \<Rightarrow> nat_of_digits (10 * acc + d) cs)"

text \<open>
  Modelled from the spec: the integer parser behind \<^verbatim>\<open>dxr.utils.non_negative_int\<close>,
  which is not among the sources. A string parses as an integer when it is a non-empty
  run of decimal digits, optionally preceded by one sign.
\<close>

definition int_of_string :: "string \<Rightarrow> int option" where
  "int_of_string s =
     (case s of
        [] \<Rightarrow> None
      | c # cs \<Rightarrow>
          if c = CHR ''-'' then
            (if cs = [] then None else map_option (\<lambda>n. - int n) (nat_of_digits 0 cs))
          else if c = CHR ''+'' then
            (if cs = [] then None else map_option int (nat_of_digits 0 cs))
          else map_option int (nat_of_digits 0 s))"

text \<open>
  Modelled from the spec: \<^verbatim>\<open>dxr.utils.non_negative_int(s, default)\<close>, which is not
  among the sources. The spec has parsing fall back to the default: the value when the
  parameter is present and parses as an integer that is not negative, the default
  otherwise (also for a missing parameter, where \<^verbatim>\<open>s\<close> is \<^verbatim>\<open>None\<close>).
\<close>

definition non_negative_int :: "string option \<Rightarrow> int \<Rightarrow> int" where
  "non_negative_int s dflt =
     (case s of
        None \<Rightarrow> dflt
      | Some str \<Rightarrow>
          (case int_of_string str of
             None \<Rightarrow> dflt
           | Some i \<Rightarrow> if 0 \<le> i then i else dflt))"

text \<open>
  The normalisation at the head of \<^verbatim>\<open>search\<close>: query text, offset, limit and
  case flag, in that order.
\<close>

definition search_params :: "params \<Rightarrow> string \<times> int \<times> int \<times> bool" where
  "search_params req =
     (let query_text = get_default req ''q'' [];
          offset = non_negative_int (get req ''offset'') 0;
          limit = min (non_negative_int (get req ''limit'') 100) 1000;
          is_case_sensitive = (get req ''case'' = Some ''true'')
      in (query_text, offset, limit, is_case_sensitive))"

section \<open>Content negotiation\<close>

text \<open>
  \<^verbatim>\<open>request.accept_mimetypes\<close> is the HTTP library's container of the client's
  (media range, quality) pairs. Its matching lower-cases both sides, lets \<^verbatim>\<open>*\<close>
  stand for \<^verbatim>\<open>*/*\<close>, ignores a client item without a slash or of the form
  \<^verbatim>\<open>*/x\<close>, and lets a wildcard on either side match. The server-side values
  are the two literals of \<^verbatim>\<open>_request_wants_json\<close>, so the library's check that
  they are well-formed media types never fails and is left out.
\<close>

type_synonym accept = "(string \<times> rat) list"

definition lower_char :: "char \<Rightarrow> char" where
  "lower_char c =
     (case map_of (zip ''ABCDEFGHIJKLMNOPQRSTUVWXYZ'' ''abcdefghijklmnopqrstuvwxyz'') c of
        None \<Rightarrow> c
      | Some l \<Rightarrow> l)"

definition normalize_mime :: "string \<Rightarrow> string \<times> string" where
  "normalize_mime x =
     (let y = map lower_char x
      in if y = ''*'' then (''*'', ''*'')
         else (takeWhile (\<lambda>c. c \<noteq> CHR ''/'') y, drop 1 (dropWhile (\<lambda>c. c \<noteq> CHR ''/'') y)))"

definition value_matches :: "string \<Rightarrow> string \<Rightarrow> bool" where
  "value_matches v item =
     (let (value_type, value_subtype) = normalize_mime v
      in if CHR ''/'' \<notin> set item then False
         else
           (let (item_type, item_subtype) = normalize_mime item
            in if item_type = ''*'' \<and> item_subtype \<noteq> ''*'' then False
               else (item_type = ''*'' \<and> item_subtype = ''*'') \<or>
                    (value_type = ''*'' \<and> value_subtype = ''*'') \<or>
                    (item_type = value_type \<and>
                       (item_subtype = ''*'' \<or> value_subtype = ''*'' \<or>
                        item_subtype = value_subtype))))"

text \<open>Indexing the container by a media type: the quality of the first matching item, else 0.\<close>

fun quality :: "accept \<Rightarrow> string \<Rightarrow> rat" where
  "quality [] key = 0"
| "quality ((item, q) # rest) key = (if value_matches key item then q else quality rest key)"

text \<open>
  \<^verbatim>\<open>best_match\<close>: for each server item in turn, the client items are scanned until
  one is no better than the best quality so far; a matching item of positive quality
  becomes the new best.
\<close>

fun best_match_scan :: "string \<Rightarrow> accept \<Rightarrow> rat \<times> string option \<Rightarrow> rat \<times> string option" where
  "best_match_scan server_item [] (best_quality, result) = (best_quality, result)"
| "best_match_scan server_item ((client_item, q) # rest) (best_quality, result) =
     (if q \<le> best_quality then (best_quality, result)
      else if value_matches server_item client_item \<and> 0 < q
        then best_match_scan server_item rest (q, Some server_item)
      else best_match_scan server_item rest (best_quality, result))"

definition best_match :: "accept \<Rightarrow> string list \<Rightarrow> string option" where
  "best_match acc matches =
     snd (foldl (\<lambda>st server_item. best_match_scan server_item acc st) (- 1, None) matches)"

definition request_wants_json :: "accept \<Rightarrow> bool" where
  "request_wants_json accept_mimetypes =
     (let best = best_match accept_mimetypes [''application/json'', ''text/html'']
      in case best of
           None \<Rightarrow> False
         | Some b \<Rightarrow> b = ''application/json'' \<and>
                     quality accept_mimetypes ''text/html'' < quality accept_mimetypes b)"

section \<open>Configuration, collaborators and responses\<close>

text \<open>
  The configuration keys the handlers read. \<^verbatim>\<open>TREES\<close> maps a tree name to its
  description and \<^verbatim>\<open>ES_ALIASES\<close> a tree name to its index alias; both are kept in
  iteration order.
\<close>

record config =
  WWW_ROOT :: string
  TREES :: "(string \<times> string) list"
  ES_ALIASES :: "(string \<times> string) list"
  DEFAULT_TREE :: string
  GENERATED_DATE :: string
  GOOGLE_ANALYTICS_KEY :: string

text \<open>
  A \<^verbatim>\<open>Query\<close> object of \<^verbatim>\<open>dxr.query\<close>, whose class is not among the sources,
  is taken by its two methods as the spec gives them: \<^verbatim>\<open>direct_result()\<close> is a
  (path, line) pair or nothing, and \<^verbatim>\<open>results(offset, limit)\<close> is a list of
  (icon, path, lines) or fails with \<^verbatim>\<open>BadTerm\<close>, here \<open>Inl\<close> of its reason.
\<close>

type_synonym search_result = "string \<times> string \<times> (int \<times> string) list"

record query =
  direct_result :: "(string \<times> int) option"
  results :: "int \<Rightarrow> int \<Rightarrow> string + search_result list"

text \<open>One \<^verbatim>\<open>_source\<close> document of the folder listing, with the keys \<^verbatim>\<open>browse\<close> reads.\<close>

record folder_entry =
  f_is_folder :: bool
  f_name :: string
  f_modified :: "string option"
  f_size :: "int option"
  f_path :: "string list"

text \<open>
  What a handler reaches through \<^verbatim>\<open>current_app\<close> and its imports: the
  configuration, the instance path, the index (the \<^verbatim>\<open>Query\<close> constructor applied to
  an alias, a query text and the case flag; the folder search applied to an alias and a
  folder path), the file system tests, the framework's \<^verbatim>\<open>safe_join\<close> (nothing when
  it refuses the file name), and the helpers of this repository that are not among the
  sources, taken as parameters.
\<close>

record app =
  app_config :: config
  instance_path :: string
  es_query :: "string \<Rightarrow> string \<Rightarrow> bool \<Rightarrow> query"
  es_folder :: "string \<Rightarrow> string \<Rightarrow> folder_entry list"
  isdir :: "string \<Rightarrow> bool"
  isfile :: "string \<Rightarrow> bool"
  safe_join :: "string \<Rightarrow> string \<Rightarrow> string option"
  icon :: "string \<Rightarrow> string"
  decode_es_datetime :: "string \<Rightarrow> string"
  linked_pathname :: "string \<Rightarrow> string \<Rightarrow> (string \<times> string) list"
  filter_menu_items :: "(string \<times> string) list"

record request =
  req_values :: params
  accept_mimetypes :: accept

text \<open>The exceptions that can leave a handler.\<close>

datatype exn = NotFound "string option" | KeyError string | IndexError | UnicodeEncodeError

text \<open>
  A URL built by \<^verbatim>\<open>url_for\<close>: the path under the blueprint's prefix, which
  \<^verbatim>\<open>make_app\<close> sets to \<^verbatim>\<open>WWW_ROOT\<close>, and the remaining keyword arguments as
  query parameters. The routing framework percent-encodes both and decodes them again
  when it parses a request; the model keeps them decoded.
\<close>

record url =
  url_path :: string
  url_args :: params

definition url_for_browse :: "config \<Rightarrow> string \<Rightarrow> string \<Rightarrow> url" where
  "url_for_browse cfg t path =
     \<lparr>url_path = WWW_ROOT cfg @ ''/'' @ t @ ''/source/'' @ path, url_args = []\<rparr>"

definition url_for_search :: "config \<Rightarrow> string \<Rightarrow> params \<Rightarrow> url" where
  "url_for_search cfg t args =
     \<lparr>url_path = WWW_ROOT cfg @ ''/'' @ t @ ''/search'', url_args = args\<rparr>"

definition url_for_parallel :: "config \<Rightarrow> string \<Rightarrow> string \<Rightarrow> url" where
  "url_for_parallel cfg t path =
     \<lparr>url_path = WWW_ROOT cfg @ ''/'' @ t @ ''/parallel/'' @ path, url_args = []\<rparr>"

definition url_string :: "url \<Rightarrow> string" where
  "url_string u =
     (if url_args u = [] then url_path u
      else url_path u @ ''?'' @ str_join ''&'' (map (\<lambda>(k, v). k @ ''='' @ v) (url_args u)))"

type_synonym tree_tuple = "string \<times> url \<times> string"

text \<open>The variables shared by \<^verbatim>\<open>search.html\<close> and \<^verbatim>\<open>error.html\<close>.\<close>

record template_vars =
  tv_filters :: "(string \<times> string) list"
  tv_generated_date :: string
  tv_google_analytics_key :: string
  tv_is_case_sensitive :: bool
  tv_query :: string
  tv_search_url :: url
  tv_tree :: string
  tv_tree_tuples :: "tree_tuple list"
  tv_wwwroot :: string

text \<open>The variables of \<^verbatim>\<open>folder.html\<close>.\<close>

record folder_vars =
  fv_wwwroot :: string
  fv_tree :: string
  fv_tree_tuples :: "tree_tuple list"
  fv_generated_date :: string
  fv_google_analytics_key :: string
  fv_paths_and_names :: "(string \<times> string) list"
  fv_filters :: "(string \<times> string) list"
  fv_should_autofocus_query :: bool
  fv_name :: string
  fv_path :: string
  fv_data_path :: "string list"
  fv_files_and_folders :: "(string \<times> string \<times> string option \<times> int option \<times> url) list"

datatype json_body =
    Error_json string string
  | Results_json string string "search_result list" "tree_tuple list"

datatype page =
    Error_page string template_vars
  | Search_page "search_result list" template_vars
  | Folder_page folder_vars

text \<open>
  A response: a redirect to a location, a file sent from disk, a JSON body with its
  status, or a rendered template (its name, its variables, its status).
\<close>

datatype response =
    Redirect string
  | Send_file string
  | Jsonify json_body nat
  | Render_template string page nat

text \<open>
  The status the framework answers with: that of the response, 404 for
  \<^verbatim>\<open>NotFound\<close>, and 500 for any other exception, which no handler catches.
\<close>

fun status_of :: "exn + response \<Rightarrow> nat" where
  "status_of (Inl (NotFound msg)) = 404"
| "status_of (Inl (KeyError k)) = 500"
| "status_of (Inl IndexError) = 500"
| "status_of (Inl UnicodeEncodeError) = 500"
| "status_of (Inr (Redirect location)) = 302"
| "status_of (Inr (Send_file filename)) = 200"
| "status_of (Inr (Jsonify body status)) = status"
| "status_of (Inr (Render_template name vars status)) = status"

section \<open>Decimal rendering\<close>

text \<open>The \<^verbatim>\<open>%i\<close> conversion of an integer.\<close>

fun str_of_nat :: "nat \<Rightarrow> string" where
  "str_of_nat n =
     (if n < 10 then [''0123456789'' ! n]
      else str_of_nat (n div 10) @ [''0123456789'' ! (n mod 10)])"

declare str_of_nat.simps [simp del]

definition str_of_int :: "int \<Rightarrow> string" where
  "str_of_int i = (if i < 0 then ''-'' @ str_of_nat (nat (- i)) else str_of_nat (nat i))"

section \<open>The handlers\<close>

definition index :: "app \<Rightarrow> exn + response" where
  "index a =
     (let cfg = app_config a
      in Inr (Redirect (url_string (url_for_browse cfg (DEFAULT_TREE cfg) []))))"

definition tree_tuples :: "app \<Rightarrow> (string \<times> string) list \<Rightarrow> string \<Rightarrow> string \<Rightarrow> bool \<Rightarrow> tree_tuple list" where
  "tree_tuples a trees t query_text is_case_sensitive =
     map (\<lambda>(t', description).
            (t',
             url_for_search (app_config a) t'
               ([(''q'', query_text)] @ (if is_case_sensitive then [(''case'', ''true'')] else [])),
             description))
         trees"

definition search_json :: "app \<Rightarrow> query \<Rightarrow> string \<Rightarrow> string \<Rightarrow> bool \<Rightarrow> int \<Rightarrow> int \<Rightarrow> response" where
  "search_json a qry t query_text is_case_sensitive offset limit =
     (let cfg = app_config a
      in case results qry offset limit of
           Inl reason \<Rightarrow> Jsonify (Error_json reason ''warning'') 400
         | Inr rs \<Rightarrow>
             Jsonify (Results_json (WWW_ROOT cfg) t rs
                        (tree_tuples a (TREES cfg) t query_text is_case_sensitive)) 200)"

definition should_redirect :: "request \<Rightarrow> bool" where
  "should_redirect req = (get (req_values req) ''redirect'' = Some ''true'')"

definition search_html :: "app \<Rightarrow> request \<Rightarrow> query \<Rightarrow> string \<Rightarrow> string \<Rightarrow> bool \<Rightarrow> int \<Rightarrow> int \<Rightarrow> response" where
  "search_html a req qry t query_text is_case_sensitive offset limit =
     (let cfg = app_config a
      in case (if should_redirect req then direct_result qry else None) of
           Some (path, line) \<Rightarrow>
             Redirect (WWW_ROOT cfg @ ''/'' @ t @ ''/source/'' @ path @ ''?from='' @ query_text @
                       (if is_case_sensitive then ''&case=true'' else []) @ ''#'' @ str_of_int line)
         | None \<Rightarrow>
             (let template_vars =
                    \<lparr>tv_filters = filter_menu_items a,
                     tv_generated_date = GENERATED_DATE cfg,
                     tv_google_analytics_key = GOOGLE_ANALYTICS_KEY cfg,
                     tv_is_case_sensitive = is_case_sensitive,
                     tv_query = query_text,
                     tv_search_url =
                       url_for_search cfg t [(''q'', query_text), (''redirect'', ''false'')],
                     tv_tree = t,
                     tv_tree_tuples = tree_tuples a (TREES cfg) t query_text is_case_sensitive,
                     tv_wwwroot = WWW_ROOT cfg\<rparr>
              in case results qry offset limit of
                   Inl reason \<Rightarrow> Render_template ''error.html'' (Error_page reason template_vars) 400
                 | Inr rs \<Rightarrow> Render_template ''search.html'' (Search_page rs template_vars) 200))"

definition search :: "app \<Rightarrow> request \<Rightarrow> string \<Rightarrow> exn + response" where
  "search a req t =
     (let cfg = app_config a
      in if t \<notin> fst ` set (TREES cfg) then Inl (NotFound (Some (''No such tree as '' @ t)))
         else
           (let (query_text, offset, limit, is_case_sensitive) = search_params (req_values req)
            in case map_of (ES_ALIASES cfg) t of
                 None \<Rightarrow> Inl (KeyError t)
               | Some alias \<Rightarrow>
                   (let qry = es_query a alias query_text is_case_sensitive
                    in if request_wants_json (accept_mimetypes req)
                       then Inr (search_json a qry t query_text is_case_sensitive offset limit)
                       else Inr (search_html a req qry t query_text is_case_sensitive offset limit))))"

definition tree_folder :: "app \<Rightarrow> string \<Rightarrow> string" where
  "tree_folder a t = path_join (path_join (instance_path a) ''trees'') t"

definition html_file_path :: "app \<Rightarrow> string \<Rightarrow> string \<Rightarrow> exn + string" where
  "html_file_path a tf upath =
     (if isdir a (path_join tf upath) then Inl (NotFound None)
      else Inr (upath @ ''.html''))"

text \<open>
  The framework's \<^verbatim>\<open>send_from_directory\<close>: \<^verbatim>\<open>NotFound\<close> when \<^verbatim>\<open>safe_join\<close>
  refuses the file name or the joined path is not a regular file, the file otherwise.
\<close>

definition send_from_directory :: "app \<Rightarrow> string \<Rightarrow> string \<Rightarrow> exn + response" where
  "send_from_directory a directory filename =
     (case safe_join a directory filename of
        None \<Rightarrow> Inl (NotFound None)
      | Some p \<Rightarrow> if isfile a p then Inr (Send_file p) else Inl (NotFound None))"

text \<open>\<^verbatim>\<open>posixpath.basename\<close>: what follows the last slash.\<close>

definition basename :: "string \<Rightarrow> string" where
  "basename p = rev (takeWhile (\<lambda>c. c \<noteq> CHR ''/'') (rev p))"

text \<open>
  One row of \<^verbatim>\<open>files_and_folders\<close>; \<^verbatim>\<open>f['path'][0]\<close> raises
  \<^verbatim>\<open>IndexError\<close> on an empty list.
\<close>

definition folder_row :: "app \<Rightarrow> string \<Rightarrow> folder_entry \<Rightarrow> exn + (string \<times> string \<times> string option \<times> int option \<times> url)" where
  "folder_row a t f =
     (case f_path f of
        [] \<Rightarrow> Inl IndexError
      | p # ps \<Rightarrow>
          Inr (if f_is_folder f then ''folder'' else icon a (f_name f),
               f_name f,
               map_option (decode_es_datetime a) (f_modified f),
               f_size f,
               url_for_browse (app_config a) t p))"

fun folder_rows :: "app \<Rightarrow> string \<Rightarrow> folder_entry list \<Rightarrow> exn + (string \<times> string \<times> string option \<times> int option \<times> url) list" where
  "folder_rows a t [] = Inr []"
| "folder_rows a t (f # fs) =
     (case folder_row a t f of
        Inl e \<Rightarrow> Inl e
      | Inr r \<Rightarrow> (case folder_rows a t fs of Inl e \<Rightarrow> Inl e | Inr rs \<Rightarrow> Inr (r # rs)))"

text \<open>The \<^verbatim>\<open>except NotFound\<close> branch of \<^verbatim>\<open>browse\<close>: the folder served out of the index.\<close>

definition browse_folder :: "app \<Rightarrow> string \<Rightarrow> string \<Rightarrow> exn + response" where
  "browse_folder a t path =
     (let cfg = app_config a
      in case map_of (ES_ALIASES cfg) t of
           None \<Rightarrow> Inl (KeyError t)
         | Some alias \<Rightarrow>
             (let files_and_folders = es_folder a alias path
              in if files_and_folders = [] then Inl (NotFound None)
                 else
                   (let appended_paths = appended_paths_of path
                    in case folder_rows a t files_and_folders of
                         Inl e \<Rightarrow> Inl e
                       | Inr rows \<Rightarrow>
                           Inr (Render_template ''folder.html''
                                  (Folder_page
                                     \<lparr>fv_wwwroot = WWW_ROOT cfg,
                                      fv_tree = t,
                                      fv_tree_tuples =
                                        map (\<lambda>(t_name, t_description).
                                               (t_name, url_for_parallel cfg t_name path, t_description))
                                            (TREES cfg),
                                      fv_generated_date = GENERATED_DATE cfg,
                                      fv_google_analytics_key = GOOGLE_ANALYTICS_KEY cfg,
                                      fv_paths_and_names = linked_pathname a path t,
                                      fv_filters = filter_menu_items a,
                                      fv_should_autofocus_query = (path = []),
                                      fv_name = (if basename path = [] then t else basename path),
                                      fv_path = path,
                                      fv_data_path = appended_paths,
                                      fv_files_and_folders = rows\<rparr>)
                                  200))))"

text \<open>The \<^verbatim>\<open>try\<close> body of \<^verbatim>\<open>browse\<close>: the prerendered page of a file.\<close>

definition browse_file :: "app \<Rightarrow> string \<Rightarrow> string \<Rightarrow> exn + response" where
  "browse_file a t path =
     (let tf = tree_folder a t
      in case html_file_path a tf path of
           Inl e \<Rightarrow> Inl e
         | Inr p \<Rightarrow> send_from_directory a tf p)"

definition browse :: "app \<Rightarrow> string \<Rightarrow> string \<Rightarrow> exn + response" where
  "browse a t path =
     (case browse_file a t path of
        Inr resp \<Rightarrow> Inr resp
      | Inl (NotFound msg) \<Rightarrow> browse_folder a t path
      | Inl e \<Rightarrow> Inl e)"

definition tree_root :: "string \<Rightarrow> exn + response" where
  "tree_root t = Inr (Redirect (t @ ''/source/''))"

text \<open>
  The router delivers \<^verbatim>\<open>tree\<close> and \<^verbatim>\<open>path\<close> as unicode strings, kept here as
  their UTF-8 bytes: a character outside ASCII is a byte with the top bit set.
\<close>

definition is_ascii :: "string \<Rightarrow> bool" where
  "is_ascii s = list_all (\<lambda>c. \<not> digit7 c) s"

text \<open>
  What the byte-string \<^verbatim>\<open>'...'.format\<close> does with a unicode argument: it converts
  the argument with the ASCII codec, which raises \<^verbatim>\<open>UnicodeEncodeError\<close> on any
  character outside ASCII.
\<close>

definition format_unicode :: "string \<Rightarrow> exn + string" where
  "format_unicode u = (if is_ascii u then Inr u else Inl UnicodeEncodeError)"

text \<open>
  \<^verbatim>\<open>parallel\<close>. Each target is built by a byte-string \<^verbatim>\<open>format\<close>: the
  configured root is a byte string and passes through, \<^verbatim>\<open>tree\<close> and (in the first
  branch) \<^verbatim>\<open>path\<close> are converted in the order of the fields.
\<close>

definition parallel :: "app \<Rightarrow> string \<Rightarrow> string \<Rightarrow> exn + response" where
  "parallel a t path =
     (let tf = tree_folder a t
      in case (case html_file_path a tf path of
                 Inl (NotFound msg) \<Rightarrow> Inr None
               | Inl e \<Rightarrow> Inl e
               | Inr p \<Rightarrow> Inr (Some p)) of
           Inl e \<Rightarrow> Inl e
         | Inr disk_path \<Rightarrow>
             (let www_root = WWW_ROOT (app_config a)
              in if (case disk_path of None \<Rightarrow> True | Some p \<Rightarrow> isfile a (path_join tf p))
                 then (case format_unicode t of
                         Inl e \<Rightarrow> Inl e
                       | Inr t' \<Rightarrow>
                           (case format_unicode path of
                              Inl e \<Rightarrow> Inl e
                            | Inr path' \<Rightarrow>
                                Inr (Redirect (www_root @ ''/'' @ t' @ ''/source/'' @ path'))))
                 else (case format_unicode t of
                         Inl e \<Rightarrow> Inl e
                       | Inr t' \<Rightarrow> Inr (Redirect (www_root @ ''/'' @ t' @ ''/source/'')))))"

section \<open>A concrete instance\<close>

text \<open>
  A small deployment to run the handlers on: two trees under the root \<^verbatim>\<open>/dxr\<close>, an
  index that knows one direct result and rejects one query term, and a disk holding one
  folder and one prerendered page.
\<close>

definition example_config :: config where
  "example_config =
     \<lparr>WWW_ROOT = ''/dxr'',
      TREES = [(''mozilla'', ''Mozilla central''), (''nss'', ''Network Security Services'')],
      ES_ALIASES = [(''mozilla'', ''dxr_mozilla''), (''nss'', ''dxr_nss'')],
      DEFAULT_TREE = ''mozilla'',
      GENERATED_DATE = ''2014-11-04'',
      GOOGLE_ANALYTICS_KEY = []\<rparr>"

definition example_query :: "string \<Rightarrow> string \<Rightarrow> bool \<Rightarrow> query" where
  "example_query alias text is_case_sensitive =
     \<lparr>direct_result = (if text = ''main'' then Some (''src/main.c'', 12) else None),
      results = (\<lambda>offset limit.
        if text = ''regexp:('' then Inl ''Invalid regular expression''
        else Inr [(''c'', ''src/main.c'', [(12, ''int main()'')])])\<rparr>"

definition example_app :: app where
  "example_app =
     \<lparr>app_config = example_config,
      instance_path = ''/inst'',
      es_query = example_query,
      es_folder = (\<lambda>alias path.
        if alias = ''dxr_mozilla'' \<and> path = ''src''
        then [\<lparr>f_is_folder = False, f_name = ''main.c'', f_modified = None,
               f_size = Some 120, f_path = [''src/main.c'']\<rparr>]
        else []),
      isdir = (\<lambda>p. p = ''/inst/trees/mozilla/src''),
      isfile = (\<lambda>p. p = ''/inst/trees/mozilla/src/main.c.html''),
      safe_join = (\<lambda>directory filename. Some (path_join directory filename)),
      icon = (\<lambda>n. ''unknown''),
      decode_es_datetime = (\<lambda>s. s),
      linked_pathname = (\<lambda>path t. []),
      filter_menu_items = []\<rparr>"

definition browser_request :: "params \<Rightarrow> request" where
  "browser_request vs = \<lparr>req_values = vs, accept_mimetypes = [(''text/html'', 1), (''*/*'', 8 / 10)]\<rparr>"

definition json_request :: "params \<Rightarrow> request" where
  "json_request vs = \<lparr>req_values = vs, accept_mimetypes = [(''application/json'', 1)]\<rparr>"

section \<open>Properties of the breadcrumb data\<close>

lemma split_char_nonempty: "split_char c s \<noteq> []"
  by (induction s) (auto split: list.splits)

lemma str_join_snoc:
  "xs \<noteq> [] \<Longrightarrow> str_join sep (xs @ [x]) = str_join sep xs @ sep @ x"
  by (induction sep xs rule: str_join.induct) auto

lemma foldl_append_path_length:
  "length (foldl append_path acc segs) = length acc + length segs"
  by (induction segs arbitrary: acc) (auto simp: append_path_def)

lemma foldl_append_path_snoc:
  "foldl append_path [] (segs @ [s]) = append_path (foldl append_path [] segs) s"
  by simp

lemma foldl_append_path_join:
  "i < length segs \<Longrightarrow>
   foldl append_path [] segs ! i = str_join ''/'' (take (Suc i) segs)"
proof (induction segs arbitrary: i rule: rev_induct)
  case Nil
  then show ?case by simp
next
  case (snoc s segs)
  let ?acc = "foldl append_path [] segs"
  have len: "length ?acc = length segs"
    by (simp add: foldl_append_path_length)
  show ?case
  proof (cases "i < length segs")
    case True
    from True len have "?acc \<noteq> []" by auto
    then have "foldl append_path [] (segs @ [s]) ! i = ?acc ! i"
      using True len by (simp add: append_path_def nth_append)
    also have "\<dots> = str_join ''/'' (take (Suc i) segs)"
      using snoc.IH True by simp
    finally show ?thesis using True by simp
  next
    case False
    with snoc.prems have i: "i = length segs" by simp
    show ?thesis
    proof (cases "segs = []")
      case True
      then show ?thesis using i by (simp add: append_path_def)
    next
      case False
      then have ne: "?acc \<noteq> []" using len by auto
      have prev: "last ?acc = str_join ''/'' segs"
      proof -
        have "last ?acc = ?acc ! (length segs - 1)"
          using ne len by (simp add: last_conv_nth)
        also have "\<dots> = str_join ''/'' (take (Suc (length segs - 1)) segs)"
          using snoc.IH [of "length segs - 1"] False by simp
        finally show ?thesis using False by simp
      qed
      have "foldl append_path [] (segs @ [s]) ! i = last ?acc @ ''/'' @ s"
        using ne len i by (simp add: append_path_def nth_append)
      then show ?thesis
        using prev i False by (simp add: str_join_snoc)
    qed
  qed
qed

text \<open>
  C9: the breadcrumb partial paths of a requested path have one entry per
  \<^verbatim>\<open>'/'\<close>-separated segment, and the i-th entry is the \<^verbatim>\<open>'/'\<close>-join of
  the first i+1 segments; for \<^verbatim>\<open>a/b/c\<close> they are \<^verbatim>\<open>a\<close>, \<^verbatim>\<open>a/b\<close>,
  \<^verbatim>\<open>a/b/c\<close>.
\<close>

theorem appended_paths_partial_join:
  "length (appended_paths_of path) = length (split_char CHR ''/'' path) \<and>
   (\<forall>i < length (split_char CHR ''/'' path).
      appended_paths_of path ! i =
        str_join ''/'' (take (Suc i) (split_char CHR ''/'' path))) \<and>
   appended_paths_of ''a/b/c'' = [''a'', ''a/b'', ''a/b/c'']"
proof -
  have "appended_paths_of ''a/b/c'' = [''a'', ''a/b'', ''a/b/c'']"
    by (simp add: appended_paths_of_def append_path_def)
  then show ?thesis
    by (simp add: appended_paths_of_def foldl_append_path_length foldl_append_path_join)
qed

theorem appended_paths_partial_join_witness:
  "(1::nat) < length (split_char CHR ''/'' ''src/dxr/app.py'') \<and>
   appended_paths_of ''src/dxr/app.py'' ! 1 = ''src/dxr''"
proof -
  have l: "(1::nat) < length (split_char CHR ''/'' ''src/dxr/app.py'')" by simp
  have "appended_paths_of ''src/dxr/app.py'' ! 1 =
        str_join ''/'' (take (Suc 1) (split_char CHR ''/'' ''src/dxr/app.py''))"
    using appended_paths_partial_join [of "''src/dxr/app.py''"] l by blast
  then show ?thesis using l by simp
qed

section \<open>Evaluation rules\<close>

lemmas mime_defs =
  request_wants_json_def best_match_def value_matches_def normalize_mime_def lower_char_def

lemmas param_defs =
  search_params_def get_def get_default_def non_negative_int_def int_of_string_def digit_val_def

section \<open>The redirect flag of an HTML search\<close>

text \<open>
  C1, as amended: the flag \<^verbatim>\<open>should_redirect\<close> of an HTML-shaped search is true exactly
  when the request's \<^verbatim>\<open>redirect\<close> parameter is the string \<^verbatim>\<open>true\<close>. When it is
  false the response does not depend on the direct result at all, and when it is true and
  a direct result exists the response is the redirect to that source line.
\<close>

theorem should_redirect_only_on_true:
  "(should_redirect req \<longleftrightarrow> get (req_values req) ''redirect'' = Some ''true'') \<and>
   (\<not> should_redirect req \<longrightarrow>
      search_html a req (qry\<lparr>direct_result := d\<rparr>) t q c offset limit =
      search_html a req (qry\<lparr>direct_result := None\<rparr>) t q c offset limit) \<and>
   (should_redirect req \<longrightarrow> direct_result qry = Some (p, l) \<longrightarrow>
      search_html a req qry t q c offset limit =
        Redirect (WWW_ROOT (app_config a) @ ''/'' @ t @ ''/source/'' @ p @ ''?from='' @ q @
                  (if c then ''&case=true'' else []) @ ''#'' @ str_of_int l))"
  by (simp add: should_redirect_def search_html_def Let_def)

theorem should_redirect_only_on_true_witness:
  "should_redirect (browser_request [(''q'', ''main''), (''redirect'', ''true'')]) \<and>
   direct_result (example_query ''dxr_mozilla'' ''main'' True) = Some (''src/main.c'', 12) \<and>
   search_html example_app (browser_request [(''q'', ''main''), (''redirect'', ''true'')])
     (example_query ''dxr_mozilla'' ''main'' True) ''mozilla'' ''main'' True 0 100 =
     Redirect ''/dxr/mozilla/source/src/main.c?from=main&case=true#12'' \<and>
   \<not> should_redirect (browser_request [(''q'', ''main''), (''redirect'', ''1'')]) \<and>
   search_html example_app (browser_request [(''q'', ''main''), (''redirect'', ''1'')])
     (example_query ''dxr_mozilla'' ''main'' True\<lparr>direct_result := Some (''src/main.c'', 12)\<rparr>)
     ''mozilla'' ''main'' True 0 100 =
   search_html example_app (browser_request [(''q'', ''main''), (''redirect'', ''1'')])
     (example_query ''dxr_mozilla'' ''main'' True\<lparr>direct_result := None\<rparr>)
     ''mozilla'' ''main'' True 0 100"
proof -
  let ?r1 = "browser_request [(''q'', ''main''), (''redirect'', ''true'')]"
  let ?r2 = "browser_request [(''q'', ''main''), (''redirect'', ''1'')]"
  let ?qry = "example_query ''dxr_mozilla'' ''main'' True"
  have s1: "should_redirect ?r1"
    by (simp add: should_redirect_def get_def browser_request_def)
  have d1: "direct_result ?qry = Some (''src/main.c'', 12)"
    by (simp add: example_query_def)
  have s2: "\<not> should_redirect ?r2"
    by (simp add: should_redirect_def get_def browser_request_def)
  have n: "str_of_int 12 = ''12''"
    by (simp add: str_of_int_def str_of_nat.simps)
  have w: "WWW_ROOT (app_config example_app) = ''/dxr''"
    by (simp add: example_app_def example_config_def)
  from should_redirect_only_on_true
         [where req = ?r1 and a = example_app and qry = ?qry and t = "''mozilla''" and q = "''main''"
            and c = True and offset = 0 and limit = 100 and p = "''src/main.c''" and l = 12]
       s1 d1 n w
  have a: "search_html example_app ?r1 ?qry ''mozilla'' ''main'' True 0 100 =
     Redirect ''/dxr/mozilla/source/src/main.c?from=main&case=true#12''"
    by simp
  from should_redirect_only_on_true
         [where req = ?r2 and a = example_app and qry = ?qry and d = "Some (''src/main.c'', 12)"
            and t = "''mozilla''" and q = "''main''" and c = True and offset = 0 and limit = 100]
       s2
  have b: "search_html example_app ?r2 (?qry\<lparr>direct_result := Some (''src/main.c'', 12)\<rparr>)
             ''mozilla'' ''main'' True 0 100 =
           search_html example_app ?r2 (?qry\<lparr>direct_result := None\<rparr>)
             ''mozilla'' ''main'' True 0 100"
    by blast
  from s1 d1 a s2 b show ?thesis by blast
qed

text \<open>
  C1, as stated, fails: for a browser request that carries no \<^verbatim>\<open>redirect\<close> parameter,
  or carries \<^verbatim>\<open>redirect=false\<close>, the flag is false and the normal search page is
  rendered although the query has a direct result; only \<^verbatim>\<open>redirect=true\<close> is redirected.
\<close>

theorem search_html_always_redirects_counterexample:
  "\<not> request_wants_json (accept_mimetypes (browser_request [(''q'', ''main'')])) \<and>
   \<not> should_redirect (browser_request [(''q'', ''main'')]) \<and>
   \<not> should_redirect (browser_request [(''q'', ''main''), (''redirect'', ''false'')]) \<and>
   direct_result (example_query ''dxr_mozilla'' ''main'' False) = Some (''src/main.c'', 12) \<and>
   status_of (search example_app (browser_request [(''q'', ''main'')]) ''mozilla'') = 200 \<and>
   status_of (search example_app (browser_request [(''q'', ''main''), (''redirect'', ''false'')])
                ''mozilla'') = 200 \<and>
   search example_app (browser_request [(''q'', ''main''), (''redirect'', ''true'')]) ''mozilla'' =
     Inr (Redirect ''/dxr/mozilla/source/src/main.c?from=main#12'')"
proof -
  have n: "str_of_int 12 = ''12''"
    by (simp add: str_of_int_def str_of_nat.simps)
  have j: "\<And>vs. \<not> request_wants_json (accept_mimetypes (browser_request vs))"
    by (simp add: mime_defs browser_request_def)
  have p: "\<And>vs. req_values (browser_request vs) = vs"
    by (simp add: browser_request_def)
  have s1: "\<not> should_redirect (browser_request [(''q'', ''main'')])"
    by (simp add: should_redirect_def get_def p)
  have s2: "\<not> should_redirect (browser_request [(''q'', ''main''), (''redirect'', ''false'')])"
    by (simp add: should_redirect_def get_def p)
  have s3: "should_redirect (browser_request [(''q'', ''main''), (''redirect'', ''true'')])"
    by (simp add: should_redirect_def get_def p)
  have d: "direct_result (example_query ''dxr_mozilla'' ''main'' False) = Some (''src/main.c'', 12)"
    by (simp add: example_query_def)
  have r1: "status_of (search example_app (browser_request [(''q'', ''main'')]) ''mozilla'') = 200"
    using j s1
    by (simp add: search_def search_html_def Let_def p param_defs example_app_def
          example_config_def example_query_def)
  have r2: "status_of (search example_app (browser_request [(''q'', ''main''), (''redirect'', ''false'')])
                ''mozilla'') = 200"
    using j s2
    by (simp add: search_def search_html_def Let_def p param_defs example_app_def
          example_config_def example_query_def)
  have r3: "search example_app (browser_request [(''q'', ''main''), (''redirect'', ''true'')]) ''mozilla'' =
     Inr (Redirect ''/dxr/mozilla/source/src/main.c?from=main#12'')"
    using j s3 n
    by (simp add: search_def search_html_def Let_def p param_defs example_app_def
          example_config_def example_query_def)
  from j s1 s2 d r1 r2 r3 show ?thesis by blast
qed

section \<open>Unknown trees\<close>

lemma search_unknown_tree:
  "t \<notin> fst ` set (TREES (app_config a)) \<Longrightarrow>
   search a req t = Inl (NotFound (Some (''No such tree as '' @ t)))"
  by (simp add: search_def Let_def)

lemma browse_unknown_tree:
  "map_of (ES_ALIASES (app_config a)) t = None \<Longrightarrow>
   browse a t path = Inl (KeyError t) \<or> (\<exists>p. browse a t path = Inr (Send_file p))"
  by (auto simp: browse_def browse_file_def browse_folder_def html_file_path_def
        send_from_directory_def Let_def split: option.splits)

text \<open>
  C2: a tree missing from the registry. \<^verbatim>\<open>search\<close> checks the registry and answers
  with \<^verbatim>\<open>NotFound\<close> (404), but \<^verbatim>\<open>browse\<close> makes no such check: once the file
  lookup has failed, reading the tree's index alias raises \<^verbatim>\<open>KeyError\<close>, which
  nothing catches (500).
\<close>

theorem browse_unknown_tree_unhandled:
  "''nosuch'' \<notin> fst ` set (TREES (app_config example_app)) \<and>
   status_of (search example_app (browser_request []) ''nosuch'') = 404 \<and>
   browse example_app ''nosuch'' [] = Inl (KeyError ''nosuch'') \<and>
   status_of (browse example_app ''nosuch'' []) = 500"
proof -
  have m: "''nosuch'' \<notin> fst ` set (TREES (app_config example_app))"
    by (simp add: example_app_def example_config_def)
  have s: "status_of (search example_app (browser_request []) ''nosuch'') = 404"
    using m by (simp add: search_def Let_def)
  have b: "browse example_app ''nosuch'' [] = Inl (KeyError ''nosuch'')"
    by (simp add: browse_def browse_file_def browse_folder_def html_file_path_def
          send_from_directory_def tree_folder_def path_join_def Let_def
          example_app_def example_config_def)
  from m s b show ?thesis by simp
qed

section \<open>Content negotiation chooses JSON only when it is strictly preferred\<close>

lemma quality_nonneg:
  "\<forall>q \<in> snd ` set acc. 0 \<le> q \<Longrightarrow> 0 \<le> quality acc key"
  by (induction acc) auto

lemma quality_attained:
  "quality acc key \<noteq> 0 \<Longrightarrow> \<exists>item. (item, quality acc key) \<in> set acc \<and> value_matches key item"
  by (induction acc) (auto split: if_splits)

lemma quality_bounds_matches:
  "sorted_wrt (\<ge>) (map snd acc) \<Longrightarrow> (item, q) \<in> set acc \<Longrightarrow> value_matches key item \<Longrightarrow>
   q \<le> quality acc key"
  by (induction acc) (auto split: if_splits)

lemma best_match_scan_stops:
  "\<forall>q \<in> snd ` set acc. q \<le> bq \<Longrightarrow> best_match_scan s acc (bq, r) = (bq, r)"
  by (cases acc) auto

lemma best_match_scan_no_better:
  "\<forall>(item, q) \<in> set acc. value_matches s item \<longrightarrow> q \<le> bq \<Longrightarrow>
   best_match_scan s acc (bq, r) = (bq, r)"
  by (induction acc) auto

lemma best_match_scan_finds:
  "sorted_wrt (\<ge>) (map snd acc) \<Longrightarrow> bq < quality acc s \<Longrightarrow> 0 < quality acc s \<Longrightarrow>
   best_match_scan s acc (bq, r) = (quality acc s, Some s)"
proof (induction acc arbitrary: bq r)
  case Nil
  then show ?case by simp
next
  case (Cons x acc)
  obtain item q where x: "x = (item, q)" by (cases x)
  from Cons.prems(1) x have le: "\<forall>q' \<in> snd ` set acc. q' \<le> q" and srt: "sorted_wrt (\<ge>) (map snd acc)"
    by auto
  show ?case
  proof (cases "value_matches s item")
    case True
    with Cons.prems x have "bq < q" "0 < q" by auto
    with True x le show ?thesis
      by (simp add: best_match_scan_stops)
  next
    case False
    with Cons.prems x have q1: "bq < quality acc s" and q2: "0 < quality acc s" by auto
    from q2 quality_attained [of acc s] obtain item' where
      "(item', quality acc s) \<in> set acc" by auto
    with le have "quality acc s \<le> q" by force
    with q1 have "\<not> q \<le> bq" by simp
    with False x Cons.IH [OF srt q1 q2] show ?thesis by simp
  qed
qed

lemma best_match_json:
  assumes "sorted_wrt (\<ge>) (map snd acc)" and "\<forall>q \<in> snd ` set acc. 0 \<le> q"
    and "quality acc ''text/html'' < quality acc ''application/json''"
  shows "best_match acc [''application/json'', ''text/html''] = Some ''application/json''"
proof -
  let ?qj = "quality acc ''application/json''"
  from assms(2) have "0 \<le> quality acc ''text/html''" by (rule quality_nonneg)
  with assms(3) have pos: "0 < ?qj" by simp
  then have 1: "best_match_scan ''application/json'' acc (- 1, None) = (?qj, Some ''application/json'')"
    using assms(1) by (intro best_match_scan_finds) auto
  have "\<forall>(item, q) \<in> set acc. value_matches ''text/html'' item \<longrightarrow> q \<le> ?qj"
    using quality_bounds_matches [OF assms(1)] assms(3) by fastforce
  then have 2: "best_match_scan ''text/html'' acc (?qj, Some ''application/json'') =
                  (?qj, Some ''application/json'')"
    by (rule best_match_scan_no_better)
  from 1 2 show ?thesis by (simp add: best_match_def)
qed

text \<open>
  C3: JSON is chosen exactly when \<^verbatim>\<open>application/json\<close> is the best match and its
  quality is strictly above that of \<^verbatim>\<open>text/html\<close>. So a client for which JSON is
  no better than HTML gets the rendered page: in particular one sending only
  \<^verbatim>\<open>*/*\<close>, and one giving both types the same weight; a client accepting only
  \<^verbatim>\<open>application/json\<close> gets JSON. On a container in the library's order (qualities
  descending, none negative) the strict comparison alone decides: JSON is then the best
  match already.
\<close>

theorem request_wants_json_iff:
  "(request_wants_json acc \<longleftrightarrow>
      best_match acc [''application/json'', ''text/html''] = Some ''application/json'' \<and>
      quality acc ''text/html'' < quality acc ''application/json'') \<and>
   (quality acc ''application/json'' \<le> quality acc ''text/html'' \<longrightarrow> \<not> request_wants_json acc) \<and>
   (sorted_wrt (\<ge>) (map snd acc) \<longrightarrow> (\<forall>q \<in> snd ` set acc. 0 \<le> q) \<longrightarrow>
      (request_wants_json acc \<longleftrightarrow>
         quality acc ''text/html'' < quality acc ''application/json'')) \<and>
   \<not> request_wants_json [(''*/*'', w)] \<and>
   \<not> request_wants_json [(''application/json'', w), (''text/html'', w)] \<and>
   request_wants_json [(''application/json'', 1)]"
proof -
  have a: "request_wants_json acc \<longleftrightarrow>
      best_match acc [''application/json'', ''text/html''] = Some ''application/json'' \<and>
      quality acc ''text/html'' < quality acc ''application/json''"
    by (auto simp: request_wants_json_def Let_def split: option.splits)
  have b: "\<not> request_wants_json [(''*/*'', w)]"
    by (simp add: mime_defs)
  have c: "\<not> request_wants_json [(''application/json'', w), (''text/html'', w)]"
    by (simp add: mime_defs)
  have d: "request_wants_json [(''application/json'', 1)]"
    by (simp add: mime_defs)
  have e: "request_wants_json acc \<longleftrightarrow>
             quality acc ''text/html'' < quality acc ''application/json''"
    if "sorted_wrt (\<ge>) (map snd acc)" "\<forall>q \<in> snd ` set acc. 0 \<le> q"
    using a best_match_json [OF that] by blast
  from a have f: "quality acc ''application/json'' \<le> quality acc ''text/html'' \<longrightarrow>
                    \<not> request_wants_json acc"
    by auto
  from a b c d e f show ?thesis by blast
qed

theorem request_wants_json_iff_witness:
  "quality [(''text/html'', 9 / 10), (''application/json'', 8 / 10)] ''application/json''
     \<le> quality [(''text/html'', 9 / 10), (''application/json'', 8 / 10)] ''text/html'' \<and>
   \<not> request_wants_json [(''text/html'', 9 / 10), (''application/json'', 8 / 10)] \<and>
   sorted_wrt (\<ge>) (map snd [(''application/json'', 1 :: rat), (''*/*'', 1 / 10)]) \<and>
   quality [(''application/json'', 1), (''*/*'', 1 / 10)] ''text/html''
     < quality [(''application/json'', 1), (''*/*'', 1 / 10)] ''application/json'' \<and>
   request_wants_json [(''application/json'', 1), (''*/*'', 1 / 10)]"
proof -
  let ?acc = "[(''text/html'', 9 / 10), (''application/json'', 8 / 10)] :: accept"
  let ?acc2 = "[(''application/json'', 1), (''*/*'', 1 / 10)] :: accept"
  have h: "quality ?acc ''application/json'' \<le> quality ?acc ''text/html''"
    by (simp add: value_matches_def normalize_mime_def lower_char_def)
  with request_wants_json_iff [of ?acc] have 1: "\<not> request_wants_json ?acc" by blast
  have s: "sorted_wrt (\<ge>) (map snd ?acc2)" by simp
  have n: "\<forall>q \<in> snd ` set ?acc2. 0 \<le> q" by simp
  have l: "quality ?acc2 ''text/html'' < quality ?acc2 ''application/json''"
    by (simp add: value_matches_def normalize_mime_def lower_char_def)
  from request_wants_json_iff [of ?acc2] s n l have 2: "request_wants_json ?acc2" by blast
  from h 1 s l 2 show ?thesis by blast
qed

section \<open>Offset and limit\<close>

text \<open>
  C4: the normalised offset is the \<^verbatim>\<open>offset\<close> parameter when it parses as an integer
  that is not negative and 0 otherwise; the normalised limit is the minimum of 1000 and
  the \<^verbatim>\<open>limit\<close> parameter when it parses as an integer that is not negative, 100
  otherwise. Normalisation is total: an oversized limit is cut to 1000, and both values
  stay within their bounds.
\<close>

theorem search_params_offset_limit:
  assumes "search_params req = (query_text, offset, limit, is_case_sensitive)"
  shows "offset = (case get req ''offset'' of
                     None \<Rightarrow> 0
                   | Some s \<Rightarrow> (case int_of_string s of
                                  None \<Rightarrow> 0
                                | Some i \<Rightarrow> if 0 \<le> i then i else 0)) \<and>
         limit = min (case get req ''limit'' of
                        None \<Rightarrow> 100
                      | Some s \<Rightarrow> (case int_of_string s of
                                     None \<Rightarrow> 100
                                   | Some i \<Rightarrow> if 0 \<le> i then i else 100)) 1000 \<and>
         0 \<le> offset \<and> 0 \<le> limit \<and> limit \<le> 1000"
  using assms
  by (auto simp: search_params_def non_negative_int_def Let_def split: option.splits)

lemma search_params_examples:
  "search_params [(''limit'', ''5000'')] = ([], 0, 1000, False)"
  "search_params [(''limit'', [])] = ([], 0, 100, False)"
  "search_params [(''limit'', ''10'')] = ([], 0, 10, False)"
  "search_params [(''offset'', ''20''), (''limit'', ''-1'')] = ([], 20, 100, False)"
  "search_params [(''offset'', ''abc'')] = ([], 0, 100, False)"
  by (simp_all add: param_defs)

theorem search_params_offset_limit_witness:
  "search_params [(''q'', ''foo''), (''offset'', ''40''), (''limit'', ''5000'')] =
     (''foo'', 40, 1000, False) \<and> (0::int) \<le> 40 \<and> (1000::int) \<le> 1000"
proof -
  have e: "search_params [(''q'', ''foo''), (''offset'', ''40''), (''limit'', ''5000'')] =
     (''foo'', 40, 1000, False)"
    by (simp add: param_defs)
  from search_params_offset_limit [OF e] e show ?thesis by simp
qed

section \<open>Bad query terms\<close>

text \<open>
  C5: when the results query of a search on a registered tree fails with \<^verbatim>\<open>BadTerm\<close>,
  the JSON shape answers 400 with the reason in \<^verbatim>\<open>error_html\<close>, and the HTML shape,
  once no direct result has redirected the request away before the query is run,
  answers 400 with \<^verbatim>\<open>error.html\<close> rendered around the reason. In every case the
  handler returns a response and its status is below 500.
\<close>

theorem bad_term_gives_400:
  assumes "t \<in> fst ` set (TREES (app_config a))"
    and "map_of (ES_ALIASES (app_config a)) t = Some alias"
    and "search_params (req_values req) = (query_text, offset, limit, is_case_sensitive)"
    and "results (es_query a alias query_text is_case_sensitive) offset limit = Inl reason"
  shows "(request_wants_json (accept_mimetypes req) \<longrightarrow>
            search a req t = Inr (Jsonify (Error_json reason ''warning'') 400)) \<and>
         (\<not> request_wants_json (accept_mimetypes req) \<longrightarrow>
            (should_redirect req \<longrightarrow>
               direct_result (es_query a alias query_text is_case_sensitive) = None) \<longrightarrow>
            (\<exists>vars. search a req t =
                      Inr (Render_template ''error.html'' (Error_page reason vars) 400))) \<and>
         (\<exists>resp. search a req t = Inr resp) \<and>
         status_of (search a req t) < 500"
  using assms
  by (auto simp: search_def search_json_def search_html_def Let_def split: option.splits)

theorem bad_term_gives_400_witness:
  "search example_app (json_request [(''q'', ''regexp:('')]) ''mozilla'' =
     Inr (Jsonify (Error_json ''Invalid regular expression'' ''warning'') 400) \<and>
   status_of (search example_app (browser_request [(''q'', ''regexp:(''), (''redirect'', ''true'')])
                ''mozilla'') = 400"
proof -
  let ?vs = "[(''q'', ''regexp:(''), (''redirect'', ''true'')]"
  have t: "''mozilla'' \<in> fst ` set (TREES (app_config example_app))"
    by (simp add: example_app_def example_config_def)
  have al: "map_of (ES_ALIASES (app_config example_app)) ''mozilla'' = Some ''dxr_mozilla''"
    by (simp add: example_app_def example_config_def)
  have p1: "search_params (req_values (json_request [(''q'', ''regexp:('')])) =
              (''regexp:('', 0, 100, False)"
    by (simp add: param_defs json_request_def)
  have p2: "search_params (req_values (browser_request ?vs)) = (''regexp:('', 0, 100, False)"
    by (simp add: param_defs browser_request_def)
  have r: "results (es_query example_app ''dxr_mozilla'' ''regexp:('' False) 0 100 =
             Inl ''Invalid regular expression''"
    by (simp add: example_app_def example_query_def)
  have d: "direct_result (es_query example_app ''dxr_mozilla'' ''regexp:('' False) = None"
    by (simp add: example_app_def example_query_def)
  have j1: "request_wants_json (accept_mimetypes (json_request [(''q'', ''regexp:('')]))"
    by (simp add: mime_defs json_request_def)
  have j2: "\<not> request_wants_json (accept_mimetypes (browser_request ?vs))"
    by (simp add: mime_defs browser_request_def)
  from bad_term_gives_400 [OF t al p1 r] j1
  have 1: "search example_app (json_request [(''q'', ''regexp:('')]) ''mozilla'' =
     Inr (Jsonify (Error_json ''Invalid regular expression'' ''warning'') 400)"
    by blast
  from bad_term_gives_400 [OF t al p2 r] j2 d
  obtain vars where "search example_app (browser_request ?vs) ''mozilla'' =
      Inr (Render_template ''error.html'' (Error_page ''Invalid regular expression'' vars) 400)"
    by blast
  then have 2: "status_of (search example_app (browser_request ?vs) ''mozilla'') = 400"
    by simp
  from 1 2 show ?thesis by simp
qed

section \<open>Folder listings\<close>

lemma browse_file_cases:
  "(\<exists>resp. browse_file a t path = Inr resp) \<or> browse_file a t path = Inl (NotFound None)"
  by (simp add: browse_file_def html_file_path_def send_from_directory_def Let_def
        split: option.splits)

lemma folder_row_index_error:
  "folder_row a t f = Inl e \<Longrightarrow> e = IndexError"
  by (auto simp: folder_row_def split: list.splits)

lemma folder_rows_index_error:
  "folder_rows a t fs = Inl e \<Longrightarrow> e = IndexError"
  by (induction fs arbitrary: e) (auto split: sum.splits dest: folder_row_index_error)

lemma folder_rows_total:
  "\<forall>f \<in> set fs. f_path f \<noteq> [] \<Longrightarrow>
   \<exists>rows. folder_rows a t fs = Inr rows \<and> length rows = length fs"
proof (induction fs)
  case Nil
  then show ?case by simp
next
  case (Cons f fs)
  then obtain rows where rows: "folder_rows a t fs = Inr rows" "length rows = length fs"
    by auto
  from Cons.prems obtain p ps where "f_path f = p # ps"
    by (cases "f_path f") auto
  then obtain r where "folder_row a t f = Inr r"
    by (simp add: folder_row_def)
  with rows show ?case by simp
qed

text \<open>
  C6: for a browse request that is not served as a prerendered file, on a tree that has
  an index alias, the request fails with \<^verbatim>\<open>NotFound\<close> exactly when the folder listing
  of the path is empty; when the listing has entries, each with a path to link to, the
  folder page is rendered with one row per entry.
\<close>

theorem browse_not_found_iff_empty_listing:
  assumes "\<forall>resp. browse_file a t path \<noteq> Inr resp"
    and "map_of (ES_ALIASES (app_config a)) t = Some alias"
  shows "((\<exists>msg. browse a t path = Inl (NotFound msg)) \<longleftrightarrow> es_folder a alias path = []) \<and>
         (es_folder a alias path \<noteq> [] \<longrightarrow>
            (\<forall>f \<in> set (es_folder a alias path). f_path f \<noteq> []) \<longrightarrow>
            (\<exists>vars. browse a t path = Inr (Render_template ''folder.html'' (Folder_page vars) 200) \<and>
                    fv_path vars = path \<and>
                    fv_data_path vars = appended_paths_of path \<and>
                    length (fv_files_and_folders vars) = length (es_folder a alias path)))"
proof -
  from assms(1) browse_file_cases [of a t path]
  have nf: "browse_file a t path = Inl (NotFound None)" by blast
  then have b: "browse a t path = browse_folder a t path"
    by (simp add: browse_def)
  have 1: "(\<exists>msg. browse a t path = Inl (NotFound msg)) \<longleftrightarrow> es_folder a alias path = []"
  proof (cases "es_folder a alias path = []")
    case True
    then show ?thesis using assms(2) b by (simp add: browse_folder_def Let_def)
  next
    case False
    have "browse a t path \<noteq> Inl (NotFound msg)" for msg
    proof (cases "folder_rows a t (es_folder a alias path)")
      case (Inl e)
      then have "e = IndexError" by (rule folder_rows_index_error)
      with Inl False assms(2) b show ?thesis by (simp add: browse_folder_def Let_def)
    next
      case (Inr rows)
      with False assms(2) b show ?thesis by (simp add: browse_folder_def Let_def)
    qed
    with False show ?thesis by simp
  qed
  have 2: "\<exists>vars. browse a t path = Inr (Render_template ''folder.html'' (Folder_page vars) 200) \<and>
                    fv_path vars = path \<and>
                    fv_data_path vars = appended_paths_of path \<and>
                    length (fv_files_and_folders vars) = length (es_folder a alias path)"
    if ne: "es_folder a alias path \<noteq> []"
      and ok: "\<forall>f \<in> set (es_folder a alias path). f_path f \<noteq> []"
  proof -
    from folder_rows_total [OF ok, of a t]
    obtain rows where "folder_rows a t (es_folder a alias path) = Inr rows"
      "length rows = length (es_folder a alias path)" by blast
    with ne assms(2) b show ?thesis by (simp add: browse_folder_def Let_def)
  qed
  from 1 2 show ?thesis by blast
qed

theorem browse_not_found_iff_empty_listing_witness:
  "(\<forall>resp. browse_file example_app ''mozilla'' ''src'' \<noteq> Inr resp) \<and>
   (\<forall>resp. browse_file example_app ''mozilla'' ''nothing'' \<noteq> Inr resp) \<and>
   map_of (ES_ALIASES (app_config example_app)) ''mozilla'' = Some ''dxr_mozilla'' \<and>
   es_folder example_app ''dxr_mozilla'' ''nothing'' = [] \<and>
   (\<exists>msg. browse example_app ''mozilla'' ''nothing'' = Inl (NotFound msg)) \<and>
   es_folder example_app ''dxr_mozilla'' ''src'' \<noteq> [] \<and>
   map f_path (es_folder example_app ''dxr_mozilla'' ''src'') = [[''src/main.c'']] \<and>
   status_of (browse example_app ''mozilla'' ''src'') = 200"
proof -
  have f1: "browse_file example_app ''mozilla'' ''src'' = Inl (NotFound None)"
    by (simp add: browse_file_def html_file_path_def tree_folder_def path_join_def
          Let_def example_app_def)
  have f2: "browse_file example_app ''mozilla'' ''nothing'' = Inl (NotFound None)"
    by (simp add: browse_file_def html_file_path_def send_from_directory_def tree_folder_def
          path_join_def Let_def example_app_def)
  have n1: "\<forall>resp. browse_file example_app ''mozilla'' ''src'' \<noteq> Inr resp"
    using f1 by simp
  have n2: "\<forall>resp. browse_file example_app ''mozilla'' ''nothing'' \<noteq> Inr resp"
    using f2 by simp
  have al: "map_of (ES_ALIASES (app_config example_app)) ''mozilla'' = Some ''dxr_mozilla''"
    by (simp add: example_app_def example_config_def)
  have e0: "es_folder example_app ''dxr_mozilla'' ''nothing'' = []"
    by (simp add: example_app_def)
  have e1: "es_folder example_app ''dxr_mozilla'' ''src'' \<noteq> []"
    by (simp add: example_app_def)
  have e2: "\<forall>f \<in> set (es_folder example_app ''dxr_mozilla'' ''src''). f_path f \<noteq> []"
    by (simp add: example_app_def)
  from browse_not_found_iff_empty_listing [OF n2 al] e0
  have r0: "\<exists>msg. browse example_app ''mozilla'' ''nothing'' = Inl (NotFound msg)"
    by blast
  from browse_not_found_iff_empty_listing [OF n1 al] e1 e2
  obtain vars where "browse example_app ''mozilla'' ''src'' =
      Inr (Render_template ''folder.html'' (Folder_page vars) 200)"
    by blast
  then have r1: "status_of (browse example_app ''mozilla'' ''src'') = 200"
    by simp
  have e3: "map f_path (es_folder example_app ''dxr_mozilla'' ''src'') = [[''src/main.c'']]"
    by (simp add: example_app_def)
  from n1 n2 al e0 r0 e1 e3 r1 show ?thesis by blast
qed

section \<open>Parallel trees\<close>

lemma parallel_ascii_redirect:
  "is_ascii t \<Longrightarrow> is_ascii path \<Longrightarrow>
   parallel a t path =
     Inr (Redirect
       (if isdir a (path_join (tree_folder a t) path) \<or>
           isfile a (path_join (tree_folder a t) (path @ ''.html''))
        then WWW_ROOT (app_config a) @ ''/'' @ t @ ''/source/'' @ path
        else WWW_ROOT (app_config a) @ ''/'' @ t @ ''/source/''))"
  by (simp add: parallel_def html_file_path_def format_unicode_def Let_def)

lemma parallel_non_ascii_tree:
  "\<not> is_ascii t \<Longrightarrow> parallel a t path = Inl UnicodeEncodeError"
  by (simp add: parallel_def html_file_path_def format_unicode_def Let_def)

lemma parallel_examples:
  "parallel example_app ''mozilla'' ''src'' = Inr (Redirect ''/dxr/mozilla/source/src'')"
  "parallel example_app ''mozilla'' ''src/main.c'' = Inr (Redirect ''/dxr/mozilla/source/src/main.c'')"
  "parallel example_app ''nss'' ''src/main.c'' = Inr (Redirect ''/dxr/nss/source/'')"
  by (simp_all add: parallel_ascii_redirect is_ascii_def tree_folder_def path_join_def
        example_app_def example_config_def)

text \<open>
  C7: \<^verbatim>\<open>parallel\<close> does not redirect every request. For the tree name
  \<^verbatim>\<open>caf\<close> followed by the two UTF-8 bytes of e-acute, which names no folder on disk,
  the claim asks for a redirect to that tree's source root; building the target raises
  \<^verbatim>\<open>UnicodeEncodeError\<close> instead, which nothing catches (500). A folder that exists
  under a registered tree but has such a name fails in the same way, where the claim asks
  for a redirect to the same path.
\<close>

theorem parallel_non_ascii_unhandled:
  "parallel example_app (''caf'' @ [CHR 0xC3, CHR 0xA9]) [] = Inl UnicodeEncodeError \<and>
   status_of (parallel example_app (''caf'' @ [CHR 0xC3, CHR 0xA9]) []) = 500 \<and>
   isdir (example_app\<lparr>isdir := (\<lambda>p. True)\<rparr>)
     (path_join (tree_folder (example_app\<lparr>isdir := (\<lambda>p. True)\<rparr>) ''mozilla'')
        [CHR 0xC3, CHR 0xA9]) \<and>
   parallel (example_app\<lparr>isdir := (\<lambda>p. True)\<rparr>) ''mozilla'' [CHR 0xC3, CHR 0xA9] =
     Inl UnicodeEncodeError"
proof -
  let ?t = "''caf'' @ [CHR 0xC3, CHR 0xA9]"
  let ?b = "example_app\<lparr>isdir := (\<lambda>p. True)\<rparr>"
  have d: "\<not> isdir example_app p" if "p \<noteq> ''/inst/trees/mozilla/src''" for p
    using that by (simp add: example_app_def)
  have f: "\<not> isfile example_app p" if "p \<noteq> ''/inst/trees/mozilla/src/main.c.html''" for p
    using that by (simp add: example_app_def)
  have tf: "tree_folder example_app ?t = ''/inst/trees/caf'' @ [CHR 0xC3, CHR 0xA9]"
    by (simp add: tree_folder_def path_join_def example_app_def)
  have na: "\<not> is_ascii ?t"
    by (simp add: is_ascii_def)
  have 1: "parallel example_app ?t [] = Inl UnicodeEncodeError"
    using na
    by (simp add: parallel_def html_file_path_def format_unicode_def Let_def tf path_join_def d f)
  then have 2: "status_of (parallel example_app ?t []) = 500"
    by simp
  have 3: "isdir ?b (path_join (tree_folder ?b ''mozilla'') [CHR 0xC3, CHR 0xA9])"
    by simp
  have 4: "parallel ?b ''mozilla'' [CHR 0xC3, CHR 0xA9] = Inl UnicodeEncodeError"
    by (simp add: parallel_def html_file_path_def format_unicode_def is_ascii_def Let_def)
  from 1 2 3 4 show ?thesis by blast
qed

section \<open>Tree links carry the query\<close>

text \<open>
  C8: normalising the parameters of any per-tree search link gives back the query text
  and the case flag the link was built from (with the default offset and limit); the
  \<^verbatim>\<open>case\<close> parameter is left out exactly for a case-insensitive query.
\<close>

theorem tree_link_round_trip:
  assumes "(t', link, description) \<in> set (tree_tuples a trees t query_text is_case_sensitive)"
  shows "search_params (url_args link) = (query_text, 0, 100, is_case_sensitive) \<and>
         url_path link = WWW_ROOT (app_config a) @ ''/'' @ t' @ ''/search'' \<and>
         (t', description) \<in> set trees \<and>
         (get (url_args link) ''case'' = None \<longleftrightarrow> \<not> is_case_sensitive)"
  using assms
  by (auto simp: tree_tuples_def url_for_search_def param_defs)

theorem tree_link_round_trip_witness:
  "(''nss'', url_for_search example_config ''nss'' [(''q'', ''Foo bar'')], ''Network Security Services'')
     \<in> set (tree_tuples example_app (TREES example_config) ''mozilla'' ''Foo bar'' False) \<and>
   search_params (url_args (url_for_search example_config ''nss'' [(''q'', ''Foo bar'')])) =
     (''Foo bar'', 0, 100, False)"
proof -
  have m: "(''nss'', url_for_search example_config ''nss'' [(''q'', ''Foo bar'')],
            ''Network Security Services'')
     \<in> set (tree_tuples example_app (TREES example_config) ''mozilla'' ''Foo bar'' False)"
    by (simp add: tree_tuples_def example_app_def example_config_def)
  from tree_link_round_trip [OF m] m show ?thesis by simp
qed

section \<open>The redirect of the tree root\<close>

text \<open>
  C10: \<^verbatim>\<open>tree_root\<close> redirects to the relative location \<^verbatim>\<open>tree + '/source/'\<close>,
  whatever the configuration, while the targets built by \<^verbatim>\<open>index\<close>,
  \<^verbatim>\<open>parallel\<close> and the direct-result redirect start with \<^verbatim>\<open>WWW_ROOT\<close>: every
  redirect \<^verbatim>\<open>parallel\<close> makes does, and it makes one whenever the tree name and the
  path are ASCII. For a tree name without a slash and a root URL that begins with one, the
  relative target does not start with the root URL.
\<close>

theorem tree_root_relative_redirect:
  "tree_root t = Inr (Redirect (t @ ''/source/'')) \<and>
   (\<exists>rest. index a = Inr (Redirect (WWW_ROOT (app_config a) @ rest))) \<and>
   (\<forall>location. parallel a t path = Inr (Redirect location) \<longrightarrow>
      (\<exists>rest. location = WWW_ROOT (app_config a) @ rest)) \<and>
   (is_ascii t \<longrightarrow> is_ascii path \<longrightarrow>
      (\<exists>rest. parallel a t path = Inr (Redirect (WWW_ROOT (app_config a) @ rest)))) \<and>
   (should_redirect req \<longrightarrow> direct_result qry \<noteq> None \<longrightarrow>
      (\<exists>rest. search_html a req qry t q c offset limit =
                Redirect (WWW_ROOT (app_config a) @ rest))) \<and>
   (t \<noteq> [] \<longrightarrow> CHR ''/'' \<notin> set t \<longrightarrow> hd (WWW_ROOT (app_config a)) = CHR ''/'' \<longrightarrow>
      WWW_ROOT (app_config a) \<noteq> [] \<longrightarrow>
      (\<forall>rest. t @ ''/source/'' \<noteq> WWW_ROOT (app_config a) @ rest))"
proof -
  have 1: "tree_root t = Inr (Redirect (t @ ''/source/''))"
    by (simp add: tree_root_def)
  have 2: "\<exists>rest. index a = Inr (Redirect (WWW_ROOT (app_config a) @ rest))"
    by (simp add: index_def url_string_def url_for_browse_def Let_def)
  have pr: "\<exists>rest. location = WWW_ROOT (app_config a) @ rest"
    if "parallel a t path = Inr (Redirect location)" for location
    using that
    by (auto simp: parallel_def html_file_path_def format_unicode_def Let_def
          split: if_splits)
  have pa: "\<exists>rest. parallel a t path = Inr (Redirect (WWW_ROOT (app_config a) @ rest))"
    if "is_ascii t" "is_ascii path"
    using that by (simp add: parallel_def html_file_path_def format_unicode_def Let_def)
  have 4: "\<exists>rest. search_html a req qry t q c offset limit =
                Redirect (WWW_ROOT (app_config a) @ rest)"
    if "should_redirect req" "direct_result qry \<noteq> None"
    using that by (auto simp: search_html_def Let_def)
  have 5: "t @ ''/source/'' \<noteq> WWW_ROOT (app_config a) @ rest"
    if "t \<noteq> []" "CHR ''/'' \<notin> set t" "hd (WWW_ROOT (app_config a)) = CHR ''/''"
      "WWW_ROOT (app_config a) \<noteq> []" for rest
  proof
    assume eq: "t @ ''/source/'' = WWW_ROOT (app_config a) @ rest"
    from that(1) have "hd (t @ ''/source/'') = hd t" by simp
    moreover from that(4) have "hd (WWW_ROOT (app_config a) @ rest) = CHR ''/''"
      using that(3) by simp
    ultimately have "hd t = CHR ''/''" using eq by simp
    with that(1,2) show False by (cases t) auto
  qed
  from 1 2 pr pa 4 5 show ?thesis by blast
qed

theorem tree_root_relative_redirect_witness:
  "tree_root ''mozilla'' = Inr (Redirect ''mozilla/source/'') \<and>
   index example_app = Inr (Redirect ''/dxr/mozilla/source/'') \<and>
   ''mozilla/source/'' \<noteq> WWW_ROOT (app_config example_app) @ ''/mozilla/source/'' \<and>
   is_ascii ''mozilla'' \<and> is_ascii ''src'' \<and>
   (\<exists>rest. parallel example_app ''mozilla'' ''src'' = Inr (Redirect (''/dxr'' @ rest)))"
proof -
  have w: "WWW_ROOT (app_config example_app) = ''/dxr''"
    by (simp add: example_app_def example_config_def)
  have i: "index example_app = Inr (Redirect ''/dxr/mozilla/source/'')"
    by (simp add: index_def url_string_def url_for_browse_def Let_def example_app_def
          example_config_def)
  have a1: "is_ascii ''mozilla''" and a2: "is_ascii ''src''"
    by (simp_all add: is_ascii_def)
  note th = tree_root_relative_redirect
              [where t = "''mozilla''" and a = example_app and path = "''src''"]
  from th w
  have r: "tree_root ''mozilla'' = Inr (Redirect ''mozilla/source/'') \<and>
        (\<forall>rest. ''mozilla/source/'' \<noteq> WWW_ROOT (app_config example_app) @ rest)"
    by simp
  from th a1 a2 w
  have p: "\<exists>rest. parallel example_app ''mozilla'' ''src'' = Inr (Redirect (''/dxr'' @ rest))"
    by simp
  from r i a1 a2 p show ?thesis by blast
qed

end
